theory Spec2Isabelle
  imports Complex_Main
begin

section \<open>Numbers of the notebook\<close>

text \<open>
  The statistics notebook \<^verbatim>\<open>poline-stats/evil-p.ipynb\<close> computes with NumPy double
  precision numbers.  Rounding is not modelled: a finite number is a real.  Overflow
  is left out of the operations of this section and added in the section on the
  range of double precision.  The three special values are modelled, because
  NumPy produces them instead of raising (division by zero, the mean of an empty
  array, the corrected standard deviation of a single value).  A zero divisor is taken as positive zero, which is
  what the divisors of this notebook are (square roots and counts).
\<close>

datatype npfloat = Fin real | PInf | NInf | NaN

fun fneg :: "npfloat \<Rightarrow> npfloat" where
  "fneg (Fin a) = Fin (- a)"
| "fneg PInf = NInf"
| "fneg NInf = PInf"
| "fneg NaN = NaN"

fun fadd :: "npfloat \<Rightarrow> npfloat \<Rightarrow> npfloat" where
  "fadd (Fin a) (Fin b) = Fin (a + b)"
| "fadd NaN y = NaN"
| "fadd x NaN = NaN"
| "fadd PInf NInf = NaN"
| "fadd NInf PInf = NaN"
| "fadd PInf y = PInf"
| "fadd x PInf = PInf"
| "fadd NInf y = NInf"
| "fadd x NInf = NInf"

definition fsub :: "npfloat \<Rightarrow> npfloat \<Rightarrow> npfloat" where
  "fsub x y = fadd x (fneg y)"

text \<open>The sign of an infinity times or over a finite number; zero counts as \<open>+0\<close>
  for a divisor, and infinity times zero is NaN.\<close>

definition inf_signed :: "bool \<Rightarrow> npfloat" where
  "inf_signed pos = (if pos then PInf else NInf)"

fun fmul :: "npfloat \<Rightarrow> npfloat \<Rightarrow> npfloat" where
  "fmul (Fin a) (Fin b) = Fin (a * b)"
| "fmul NaN y = NaN"
| "fmul x NaN = NaN"
| "fmul PInf (Fin b) = (if b = 0 then NaN else inf_signed (0 < b))"
| "fmul NInf (Fin b) = (if b = 0 then NaN else inf_signed (b < 0))"
| "fmul (Fin a) PInf = (if a = 0 then NaN else inf_signed (0 < a))"
| "fmul (Fin a) NInf = (if a = 0 then NaN else inf_signed (a < 0))"
| "fmul PInf PInf = PInf"
| "fmul NInf NInf = PInf"
| "fmul PInf NInf = NInf"
| "fmul NInf PInf = NInf"

fun fdiv :: "npfloat \<Rightarrow> npfloat \<Rightarrow> npfloat" where
  "fdiv (Fin a) (Fin b) =
     (if b \<noteq> 0 then Fin (a / b) else if a = 0 then NaN else inf_signed (0 < a))"
| "fdiv NaN y = NaN"
| "fdiv x NaN = NaN"
| "fdiv (Fin a) PInf = Fin 0"
| "fdiv (Fin a) NInf = Fin 0"
| "fdiv PInf (Fin b) = inf_signed (0 \<le> b)"
| "fdiv NInf (Fin b) = inf_signed (b < 0)"
| "fdiv PInf PInf = NaN"
| "fdiv PInf NInf = NaN"
| "fdiv NInf PInf = NaN"
| "fdiv NInf NInf = NaN"

fun np_sqrt :: "npfloat \<Rightarrow> npfloat" where
  "np_sqrt (Fin a) = (if a < 0 then NaN else Fin (sqrt a))"
| "np_sqrt PInf = PInf"
| "np_sqrt NInf = NaN"
| "np_sqrt NaN = NaN"

text \<open>Comparisons: every comparison with NaN is false.\<close>

fun fgt :: "npfloat \<Rightarrow> npfloat \<Rightarrow> bool" where
  "fgt (Fin a) (Fin b) = (a > b)"
| "fgt NaN y = False"
| "fgt x NaN = False"
| "fgt PInf PInf = False"
| "fgt PInf y = True"
| "fgt NInf y = False"
| "fgt (Fin a) PInf = False"
| "fgt (Fin a) NInf = True"


subsection \<open>Array reductions\<close>

text \<open>
  An array is a list.  \<^verbatim>\<open>a.sum()\<close> adds up the elements from zero;
  \<^verbatim>\<open>a.mean()\<close> divides the sum by the number of elements, so the mean of an empty
  array is \<open>0 / 0\<close>, NaN.  \<^verbatim>\<open>np.var(a, ddof=d)\<close> divides the sum of the squared
  deviations from the mean by \<open>max (N - d) 0\<close>, and \<^verbatim>\<open>np.std\<close> is its square root.
\<close>

definition np_sum :: "npfloat list \<Rightarrow> npfloat" where
  "np_sum a = foldl fadd (Fin 0) a"

definition np_mean :: "npfloat list \<Rightarrow> npfloat" where
  "np_mean a = fdiv (np_sum a) (Fin (real (length a)))"

definition np_var :: "npfloat list \<Rightarrow> int \<Rightarrow> npfloat" where
  "np_var a ddof =
     (let arrmean = np_mean a;
          x = map (\<lambda>v. fsub v arrmean) a;
          x2 = map (\<lambda>d. fmul d d) x;
          rcount = max (int (length a) - ddof) 0
      in fdiv (np_sum x2) (Fin (real_of_int rcount)))"

definition np_std :: "npfloat list \<Rightarrow> int \<Rightarrow> npfloat" where
  "np_std a ddof = np_sqrt (np_var a ddof)"


section \<open>Parameters, errors and the random generator\<close>

text \<open>
  The parameters travel as a keyword dictionary, \<^verbatim>\<open>**prmtrs\<close>, whose values are
  Python numbers: \<^verbatim>\<open>{'n':10, 'mu': .30, 'sigma': 1., 'alpha': 0.05}\<close>.  Reading a
  missing key raises \<^verbatim>\<open>KeyError\<close>.
\<close>

datatype pynum = PyInt int | PyFloat real

fun num_val :: "pynum \<Rightarrow> real" where
  "num_val (PyInt i) = real_of_int i"
| "num_val (PyFloat r) = r"

datatype pyerror = KeyError string | TypeError | ValueError

type_synonym prmtrs = "string \<rightharpoonup> pynum"

text \<open>
  NumPy's global generator, seeded once in cell 3 (\<^verbatim>\<open>np.random.seed(42)\<close>).  Its state
  is identified with the sequence of standard normal deviates it is going to
  deliver.  Drawing \<open>k\<close> deviates returns the first \<open>k\<close> and leaves the rest.
\<close>

type_synonym rng = "nat \<Rightarrow> real"

definition standard_normal :: "nat \<Rightarrow> rng \<Rightarrow> real list \<times> rng" where
  "standard_normal k g = (map g [0..<k], \<lambda>i. g (i + k))"

text \<open>
  \<^verbatim>\<open>sst.norm(loc, scale).rvs(size=(n,))\<close>.  SciPy checks the arguments when it
  samples: a negative scale is a domain error and a negative size is refused by
  NumPy (both \<^verbatim>\<open>ValueError\<close>), a size that is not an integer is a \<^verbatim>\<open>TypeError\<close>.
  A zero scale returns \<open>loc\<close> everywhere without touching the generator; otherwise
  the sample is \<open>z * scale + loc\<close> over standard normal deviates \<open>z\<close>.
\<close>

fun norm_rvs :: "real \<Rightarrow> real \<Rightarrow> pynum \<Rightarrow> rng \<Rightarrow> pyerror + (npfloat list \<times> rng)" where
  "norm_rvs loc scale (PyFloat x) g = Inl TypeError"
| "norm_rvs loc scale (PyInt n) g =
     (if scale < 0 then Inl ValueError
      else if n < 0 then Inl ValueError
      else if scale = 0 then Inr (replicate (nat n) (Fin loc), g)
      else (case standard_normal (nat n) g of
              (zs, g') \<Rightarrow> Inr (map (\<lambda>z. Fin (z * scale + loc)) zs, g')))"

section \<open>One simulated experiment: cell 31, \<^verbatim>\<open>confidence_interval\<close>\<close>

text \<open>
  The inverse survival function of Student's t, \<^verbatim>\<open>sst.t(df).isf(q)\<close>, belongs to
  SciPy and is a parameter \<open>isf\<close> (degrees of freedom, then the tail probability).
  It never raises: outside its domain it returns NaN.

  The function returns the tuple \<^verbatim>\<open>(effect, lCI, uCI, t)\<close>; the model returns the
  generator left behind as well.  The locals \<open>theta\<close> and \<open>t_alph\<close> are computed and
  never used, as in the source.
\<close>

type_synonym trial = "npfloat \<times> npfloat \<times> npfloat \<times> npfloat"

definition confidence_interval ::
  "(real \<Rightarrow> real \<Rightarrow> npfloat) \<Rightarrow> real \<Rightarrow> prmtrs \<Rightarrow> rng \<Rightarrow> pyerror + (trial \<times> rng)" where
  "confidence_interval isf CI prmtrs g =
    (case prmtrs ''n'' of None \<Rightarrow> Inl (KeyError ''n'') | Some n \<Rightarrow>
    (case prmtrs ''mu'' of None \<Rightarrow> Inl (KeyError ''mu'') | Some mu \<Rightarrow>
    (case prmtrs ''alpha'' of None \<Rightarrow> Inl (KeyError ''alpha'') | Some alpha \<Rightarrow>
    (case prmtrs ''sigma'' of None \<Rightarrow> Inl (KeyError ''sigma'') | Some sigma \<Rightarrow>
     (let df = num_val n - 1;
          theta = fdiv (fmul (Fin (num_val mu)) (np_sqrt (Fin (num_val n))))
                       (Fin (num_val sigma));
          t_ci = isf df ((1 - CI) / 2);
          t_alph = isf df (num_val alpha)
      in (case norm_rvs 0 (num_val sigma) n g of
           Inl e \<Rightarrow> Inl e
         | Inr (draws, g') \<Rightarrow>
            (let sample = map (\<lambda>x. fadd x (Fin (num_val mu))) draws;
                 effect = np_mean sample;
                 std_error_data = np_std sample 1;
                 std_error_mean = fdiv std_error_data (np_sqrt (Fin (num_val n)));
                 t = fdiv effect std_error_mean;
                 CI' = fmul t_ci std_error_mean;
                 lCI = fsub effect CI';
                 uCI = fadd effect CI'
             in Inr ((effect, lCI, uCI, t), g'))))))))"

section \<open>The simulated experiments: cells 32 and 33\<close>

text \<open>
  Cell 18 leaves the notebook variables \<^verbatim>\<open>alpha = 0.05\<close>, \<^verbatim>\<open>sample_size = 16\<close> and
  \<^verbatim>\<open>nb_of_experiments = 20\<close> behind; cell 32 reads \<^verbatim>\<open>alpha\<close>.
\<close>

definition nb_alpha :: real where
  "nb_alpha = 5 / 100"

text \<open>
  The four result arrays are allocated with zeros and filled by index:
  \<^verbatim>\<open>effect[i], lCI[i], uCI[i], t[i] = confidence_interval(CI=.95, **prmtrs)\<close>.
  An exception of a call leaves the loop.  A dictionary holding the key \<^verbatim>\<open>CI\<close>
  would give the keyword twice, a \<^verbatim>\<open>TypeError\<close> of the call.
\<close>

record arrays =
  effect :: "npfloat list"
  lCI :: "npfloat list"
  uCI :: "npfloat list"
  t :: "npfloat list"

definition np_zeros :: "nat \<Rightarrow> npfloat list" where
  "np_zeros k = replicate k (Fin 0)"

fun experiments_loop ::
  "(real \<Rightarrow> real \<Rightarrow> npfloat) \<Rightarrow> prmtrs \<Rightarrow> nat \<Rightarrow> nat \<Rightarrow> arrays \<Rightarrow> rng \<Rightarrow> pyerror + (arrays \<times> rng)" where
  "experiments_loop isf prmtrs 0 i a g = Inr (a, g)"
| "experiments_loop isf prmtrs (Suc k) i a g =
     (if ''CI'' \<in> dom prmtrs then Inl TypeError
      else (case confidence_interval isf (95 / 100) prmtrs g of
              Inl e \<Rightarrow> Inl e
            | Inr ((e, l, u, tv), g') \<Rightarrow>
                experiments_loop isf prmtrs k (Suc i)
                  (a\<lparr>effect := (effect a)[i := e], lCI := (lCI a)[i := l],
                     uCI := (uCI a)[i := u], t := (t a)[i := tv]\<rparr>) g'))"

definition simulate ::
  "(real \<Rightarrow> real \<Rightarrow> npfloat) \<Rightarrow> prmtrs \<Rightarrow> nat \<Rightarrow> rng \<Rightarrow> pyerror + (arrays \<times> rng)" where
  "simulate isf prmtrs Nexp g =
     experiments_loop isf prmtrs Nexp 0
       \<lparr>effect = np_zeros Nexp, lCI = np_zeros Nexp, uCI = np_zeros Nexp, t = np_zeros Nexp\<rparr> g"

text \<open>
  The threshold and the detections, the end of cell 32:
  \<^verbatim>\<open>t_alpha = sst.t(prmtrs['n']-1).isf(alpha)\<close> and \<^verbatim>\<open>detect = t>t_alpha\<close>.
  The \<^verbatim>\<open>alpha\<close> of this line is the notebook variable, not \<^verbatim>\<open>prmtrs['alpha']\<close>.
\<close>

definition t_alpha :: "(real \<Rightarrow> real \<Rightarrow> npfloat) \<Rightarrow> prmtrs \<Rightarrow> pyerror + npfloat" where
  "t_alpha isf prmtrs =
     (case prmtrs ''n'' of
        None \<Rightarrow> Inl (KeyError ''n'')
      | Some n \<Rightarrow> Inr (isf (num_val n - 1) nb_alpha))"

definition detect :: "npfloat list \<Rightarrow> npfloat \<Rightarrow> bool list" where
  "detect ts thr = map (\<lambda>x. fgt x thr) ts"

text \<open>\<^verbatim>\<open>detect.sum()\<close> counts the true entries; \<^verbatim>\<open>effect[detect]\<close> keeps the entries of
  \<open>effect\<close> at the positions where \<open>detect\<close> is true.\<close>

definition count_true :: "bool list \<Rightarrow> nat" where
  "count_true d = length (filter (\<lambda>b. b) d)"

definition bool_index :: "'a list \<Rightarrow> bool list \<Rightarrow> 'a list" where
  "bool_index a d = map fst (filter snd (zip a d))"

text \<open>What cell 32 and the first line of cell 33 print about a set of experiments:
  the number of detections, the mean effect and the mean detected effect
  (\<^verbatim>\<open>effect[detect].mean()\<close>).\<close>

record report =
  results :: arrays
  detections :: "bool list"
  number_of_detection :: nat
  mean_effect :: npfloat
  mean_detected_effect :: npfloat

definition experiment_set ::
  "(real \<Rightarrow> real \<Rightarrow> npfloat) \<Rightarrow> prmtrs \<Rightarrow> nat \<Rightarrow> rng \<Rightarrow> pyerror + (report \<times> rng)" where
  "experiment_set isf prmtrs Nexp g =
     (case simulate isf prmtrs Nexp g of
        Inl e \<Rightarrow> Inl e
      | Inr (a, g') \<Rightarrow>
         (case t_alpha isf prmtrs of
            Inl e \<Rightarrow> Inl e
          | Inr thr \<Rightarrow>
             (let d = detect (t a) thr
              in Inr (\<lparr>results = a, detections = d,
                        number_of_detection = count_true d,
                        mean_effect = np_mean (effect a),
                        mean_detected_effect = np_mean (bool_index (effect a) d)\<rparr>, g'))))"

text \<open>
  The results of the successive calls of the loop as a list, in the order of the
  calls; the loop stores the \<open>i\<close>-th of them at index \<open>i\<close> of the arrays.
\<close>

fun trials ::
  "(real \<Rightarrow> real \<Rightarrow> npfloat) \<Rightarrow> prmtrs \<Rightarrow> nat \<Rightarrow> rng \<Rightarrow> pyerror + (trial list \<times> rng)" where
  "trials isf prmtrs 0 g = Inr ([], g)"
| "trials isf prmtrs (Suc k) g =
     (if ''CI'' \<in> dom prmtrs then Inl TypeError
      else (case confidence_interval isf (95 / 100) prmtrs g of
              Inl e \<Rightarrow> Inl e
            | Inr (r, g') \<Rightarrow>
               (case trials isf prmtrs k g' of
                  Inl e \<Rightarrow> Inl e
                | Inr (rs, g'') \<Rightarrow> Inr (r # rs, g''))))"

text \<open>An array \<open>xs\<close> after the values \<open>vs\<close> have been stored from index \<open>i\<close> on.\<close>

definition stored :: "nat \<Rightarrow> 'a list \<Rightarrow> 'a list \<Rightarrow> 'a list" where
  "stored i vs xs = take i xs @ vs @ drop (i + length vs) xs"

text \<open>
  The detection rule in the words of the specification: the threshold is the
  inverse survival function at the significance level of the parameters.
\<close>

definition detect_spec ::
  "(real \<Rightarrow> real \<Rightarrow> npfloat) \<Rightarrow> prmtrs \<Rightarrow> npfloat \<Rightarrow> pyerror + bool" where
  "detect_spec isf prmtrs tStatistic =
     (case prmtrs ''n'' of
        None \<Rightarrow> Inl (KeyError ''n'')
      | Some n \<Rightarrow>
         (case prmtrs ''alpha'' of
            None \<Rightarrow> Inl (KeyError ''alpha'')
          | Some alpha \<Rightarrow> Inr (fgt tStatistic (isf (num_val n - 1) (num_val alpha)))))"

section \<open>The statistics in closed form\<close>

text \<open>
  The quantities the specification names, over a sample of real numbers: the sample
  mean, the standard deviation with Bessel's correction (the sum of the squared
  deviations over \<open>n - 1\<close>), and the standard error of the mean.
\<close>

definition sample_mean :: "real list \<Rightarrow> real" where
  "sample_mean xs = sum_list xs / real (length xs)"

definition sum_sq_dev :: "real list \<Rightarrow> real" where
  "sum_sq_dev xs = (\<Sum>x\<leftarrow>xs. (x - sample_mean xs) * (x - sample_mean xs))"

definition bessel_std :: "real list \<Rightarrow> real" where
  "bessel_std xs = sqrt (sum_sq_dev xs / (real (length xs) - 1))"

definition std_err :: "real list \<Rightarrow> real" where
  "std_err xs = bessel_std xs / sqrt (real (length xs))"

text \<open>The sample of one experiment, from the deviates \<open>g 0\<close>, \<open>g 1\<close>, ... of the
  generator.\<close>

definition sample_values :: "real \<Rightarrow> real \<Rightarrow> nat \<Rightarrow> rng \<Rightarrow> real list" where
  "sample_values mu sigma n g = map (\<lambda>i. g i * sigma + mu) [0..<n]"

subsection \<open>The sampling step, as specified and as coded\<close>

text \<open>
  The specification draws the sample from a normal distribution with mean \<open>mu\<close>
  and standard deviation \<open>sigma\<close>; the code draws from mean \<open>0\<close> and adds \<open>mu\<close>
  (\<^verbatim>\<open>sample = norv.rvs(size=(n,)) + mu\<close>).  \<open>confidence_interval_direct\<close> is
  \<open>confidence_interval\<close> with the sampling line replaced by the specified one.
\<close>

definition sampling_spec :: "real \<Rightarrow> real \<Rightarrow> pynum \<Rightarrow> rng \<Rightarrow> pyerror + (npfloat list \<times> rng)" where
  "sampling_spec mu sigma n g = norm_rvs mu sigma n g"

definition sampling_code :: "real \<Rightarrow> real \<Rightarrow> pynum \<Rightarrow> rng \<Rightarrow> pyerror + (npfloat list \<times> rng)" where
  "sampling_code mu sigma n g =
     (case norm_rvs 0 sigma n g of
        Inl e \<Rightarrow> Inl e
      | Inr (draws, g') \<Rightarrow> Inr (map (\<lambda>x. fadd x (Fin mu)) draws, g'))"

definition confidence_interval_direct ::
  "(real \<Rightarrow> real \<Rightarrow> npfloat) \<Rightarrow> real \<Rightarrow> prmtrs \<Rightarrow> rng \<Rightarrow> pyerror + (trial \<times> rng)" where
  "confidence_interval_direct isf CI prmtrs g =
    (case prmtrs ''n'' of None \<Rightarrow> Inl (KeyError ''n'') | Some n \<Rightarrow>
    (case prmtrs ''mu'' of None \<Rightarrow> Inl (KeyError ''mu'') | Some mu \<Rightarrow>
    (case prmtrs ''alpha'' of None \<Rightarrow> Inl (KeyError ''alpha'') | Some alpha \<Rightarrow>
    (case prmtrs ''sigma'' of None \<Rightarrow> Inl (KeyError ''sigma'') | Some sigma \<Rightarrow>
     (let df = num_val n - 1;
          t_ci = isf df ((1 - CI) / 2)
      in (case sampling_spec (num_val mu) (num_val sigma) n g of
           Inl e \<Rightarrow> Inl e
         | Inr (sample, g') \<Rightarrow>
            (let effect = np_mean sample;
                 std_error_data = np_std sample 1;
                 std_error_mean = fdiv std_error_data (np_sqrt (Fin (num_val n)));
                 t = fdiv effect std_error_mean;
                 CI' = fmul t_ci std_error_mean;
                 lCI = fsub effect CI';
                 uCI = fadd effect CI'
             in Inr ((effect, lCI, uCI, t), g'))))))))"

section \<open>The range of double precision\<close>













section \<open>Concrete inputs\<close>

text \<open>
  A few critical values of Student's t as statistical tables print them (four
  decimals), for one and nine degrees of freedom; NaN outside the domain of the
  distribution, which is SciPy's answer there.  Entries that are not tabulated are
  left NaN and are not used.
\<close>

definition t_isf_table :: "real \<Rightarrow> real \<Rightarrow> npfloat" where
  "t_isf_table df q =
     (if df \<le> 0 \<or> q < 0 \<or> 1 < q then NaN
      else if df = 1 \<and> q = 25 / 1000 then Fin (127062 / 10000)
      else if df = 1 \<and> q = 5 / 100 then Fin (63138 / 10000)
      else if df = 1 \<and> q = 1 / 100 then Fin (318205 / 10000)
      else if df = 9 \<and> q = 25 / 1000 then Fin (22622 / 10000)
      else if df = 9 \<and> q = 5 / 100 then Fin (18331 / 10000)
      else if df = 9 \<and> q = 1 / 100 then Fin (28214 / 10000)
      else NaN)"

text \<open>A generator delivering the deviates 3, 1, 3, 1, ...\<close>

definition example_draws :: rng where
  "example_draws i = (if even i then 3 else 1)"

text \<open>The parameters of cell 32, and the same with a sample size of two.\<close>

definition prmtrs_cell32 :: prmtrs where
  "prmtrs_cell32 =
     [''n'' \<mapsto> PyInt 10, ''mu'' \<mapsto> PyFloat (3 / 10), ''sigma'' \<mapsto> PyFloat 1,
      ''alpha'' \<mapsto> PyFloat (5 / 100)]"

definition prmtrs_n2 :: prmtrs where
  "prmtrs_n2 = prmtrs_cell32(''n'' \<mapsto> PyInt 2)"

text \<open>A generator delivering 3, 1 and then 14.7, 12.7, 14.7, 12.7, ...\<close>

definition example_draws_detect :: rng where
  "example_draws_detect i =
     (if i < 2 then example_draws i else if even i then 147 / 10 else 127 / 10)"

section \<open>Properties\<close>

subsection \<open>The reductions on finite data\<close>

lemma fadd_NaN_right [simp]: "fadd x NaN = NaN"
  by (cases x) simp_all

lemma fmul_NaN_right [simp]: "fmul x NaN = NaN"
  by (cases x) simp_all

lemma fdiv_NaN_right [simp]: "fdiv x NaN = NaN"
  by (cases x) simp_all

lemma foldl_fadd_Fin: "foldl fadd (Fin s) (map Fin xs) = Fin (s + sum_list xs)"
  by (induction xs arbitrary: s) (simp_all add: add.assoc)

lemma np_sum_Fin: "np_sum (map Fin xs) = Fin (sum_list xs)"
  by (simp add: np_sum_def foldl_fadd_Fin)

lemma np_mean_Fin:
  "xs \<noteq> [] \<Longrightarrow> np_mean (map Fin xs) = Fin (sample_mean xs)"
  by (simp add: np_mean_def np_sum_Fin sample_mean_def)

lemma np_mean_Nil: "np_mean [] = NaN"
  by (simp add: np_mean_def np_sum_def)

lemma sq_dev_map:
  "map (\<lambda>d. fmul d d) (map (\<lambda>v. fsub v (Fin m)) (map Fin xs)) =
   map Fin (map (\<lambda>x. (x - m) * (x - m)) xs)"
  by (simp add: fsub_def)

lemma np_var_Fin:
  assumes "2 \<le> length xs"
  shows "np_var (map Fin xs) 1 = Fin (sum_sq_dev xs / (real (length xs) - 1))"
proof -
  from assms have ne: "xs \<noteq> []" by auto
  have cnt: "real_of_int (max (int (length xs) - 1) 0) = real (length xs) - 1"
    using assms by simp
  have nz: "real (length xs) - 1 \<noteq> 0"
    using assms by simp
  have "np_var (map Fin xs) 1 =
        fdiv (np_sum (map Fin (map (\<lambda>x. (x - sample_mean xs) * (x - sample_mean xs)) xs)))
             (Fin (real (length xs) - 1))"
    by (simp only: np_var_def Let_def np_mean_Fin [OF ne] sq_dev_map length_map cnt)
  also have "\<dots> = Fin (sum_sq_dev xs / (real (length xs) - 1))"
    by (simp only: np_sum_Fin sum_sq_dev_def fdiv.simps nz if_True simp_thms)
  finally show ?thesis .
qed

lemma sum_sq_dev_nonneg: "0 \<le> sum_sq_dev xs"
  unfolding sum_sq_dev_def by (rule sum_list_nonneg) auto

lemma np_std_Fin:
  assumes "2 \<le> length xs"
  shows "np_std (map Fin xs) 1 = Fin (bessel_std xs)"
proof -
  have "0 \<le> sum_sq_dev xs / (real (length xs) - 1)"
    using assms sum_sq_dev_nonneg [of xs] by simp
  then show ?thesis
    by (simp add: np_std_def np_var_Fin [OF assms] bessel_std_def)
qed



lemma std_error_mean_Fin:
  assumes "2 \<le> length xs"
  shows "fdiv (np_std (map Fin xs) 1) (np_sqrt (Fin (real (length xs)))) = Fin (std_err xs)"
proof -
  have "xs \<noteq> []" using assms by auto
  then show ?thesis
    by (simp add: np_std_Fin [OF assms] std_err_def)
qed


lemma norm_rvs_pos:
  assumes "0 \<le> n" "0 < sigma"
  shows "norm_rvs 0 sigma (PyInt n) g =
         Inr (map Fin (map (\<lambda>i. g i * sigma) [0..<nat n]), \<lambda>i. g (i + nat n))"
  using assms by (simp add: standard_normal_def comp_def)

lemma shifted_sample:
  "map (\<lambda>x. fadd x (Fin mu)) (map Fin (map (\<lambda>i. g i * sigma) [0..<n])) =
   map Fin (sample_values mu sigma n g)"
  by (simp add: sample_values_def comp_def)

lemma confidence_interval_valid:
  assumes n: "prmtrs ''n'' = Some (PyInt n)"
    and mu: "prmtrs ''mu'' = Some mu"
    and alpha: "prmtrs ''alpha'' = Some alpha"
    and sigma: "prmtrs ''sigma'' = Some sigma"
    and n2: "2 \<le> n" and pos: "0 < num_val sigma"
    and xs: "xs = sample_values (num_val mu) (num_val sigma) (nat n) g"
  shows "confidence_interval isf CI prmtrs g =
    Inr ((Fin (sample_mean xs),
          fsub (Fin (sample_mean xs)) (fmul (isf (real_of_int n - 1) ((1 - CI) / 2)) (Fin (std_err xs))),
          fadd (Fin (sample_mean xs)) (fmul (isf (real_of_int n - 1) ((1 - CI) / 2)) (Fin (std_err xs))),
          fdiv (Fin (sample_mean xs)) (Fin (std_err xs))),
         \<lambda>i. g (i + nat n))"
proof -
  have len: "length xs = nat n" by (simp add: xs sample_values_def)
  have len2: "2 \<le> length xs" using n2 len by simp
  have ne: "xs \<noteq> []" using len2 by auto
  have rn: "real_of_int n = real (length xs)" using n2 len by simp
  have rvs: "norm_rvs 0 (num_val sigma) (PyInt n) g =
         Inr (map Fin (map (\<lambda>i. g i * num_val sigma) [0..<nat n]), \<lambda>i. g (i + nat n))"
    using n2 pos by (intro norm_rvs_pos) simp_all
  have smp: "map (\<lambda>x. fadd x (Fin (num_val mu))) (map Fin (map (\<lambda>i. g i * num_val sigma) [0..<nat n])) =
        map Fin xs"
    unfolding xs by (rule shifted_sample)
  have sem: "fdiv (np_std (map Fin xs) 1) (np_sqrt (Fin (real_of_int n))) = Fin (std_err xs)"
    unfolding rn by (rule std_error_mean_Fin [OF len2])
  show ?thesis
    unfolding confidence_interval_def
    by (simp only: n mu alpha sigma option.case Let_def rvs sum.case prod.case smp
        np_mean_Fin [OF ne] sem num_val.simps)
qed

subsection \<open>The confidence interval of a trial\<close>


























subsection \<open>The statistics of a trial\<close>



subsection \<open>What the function does with parameters out of range\<close>

text \<open>The equations that evaluate a trial on concrete inputs.\<close>

lemmas trial_eval =
  confidence_interval_def standard_normal_def np_mean_def np_std_def np_var_def np_sum_def
  fsub_def Let_def upt_rec t_isf_table_def example_draws_def prmtrs_cell32_def prmtrs_n2_def

lemma norm_rvs_Inr_iff:
  "(\<exists>r. norm_rvs loc scale (PyInt n) g = Inr r) = (0 \<le> n \<and> 0 \<le> scale)"
  by (auto simp: standard_normal_def)

lemma norm_rvs_Inl:
  "norm_rvs loc scale (PyInt n) g = Inl e \<Longrightarrow> e = ValueError"
  by (auto simp: standard_normal_def split: if_splits)

text \<open>
  Claim C1, as amended.  \<open>confidence_interval\<close> has no parameter validation.  With
  the four keys present and \<open>n\<close> an integer it returns a result exactly when
  \<open>n \<ge> 0\<close> and \<open>sigma \<ge> 0\<close>, whatever \<open>alpha\<close> and \<open>CI\<close> are: for all valid parameters
  no error is raised, and \<open>n = 0\<close>, \<open>n = 1\<close>, \<open>sigma = 0\<close> and an \<open>alpha\<close> or \<open>CI\<close>
  outside the unit interval are accepted as well.  The only failure is the
  \<^verbatim>\<open>ValueError\<close> of the sampling call, for \<open>n < 0\<close> or \<open>sigma < 0\<close>.
\<close>

theorem no_parameter_validation:
  assumes "prmtrs ''n'' = Some (PyInt n)"
    and "prmtrs ''mu'' = Some mu"
    and "prmtrs ''alpha'' = Some alpha"
    and "prmtrs ''sigma'' = Some sigma"
  shows "(\<exists>r. confidence_interval isf CI prmtrs g = Inr r) = (0 \<le> n \<and> 0 \<le> num_val sigma) \<and>
         (confidence_interval isf CI prmtrs g = Inl ValueError) = (n < 0 \<or> num_val sigma < 0)"
proof (cases "norm_rvs 0 (num_val sigma) (PyInt n) g")
  case (Inl e)
  then have e: "e = ValueError" by (rule norm_rvs_Inl)
  have "\<not> (0 \<le> n \<and> 0 \<le> num_val sigma)"
    using norm_rvs_Inr_iff [of 0 "num_val sigma" n g] Inl by simp
  then show ?thesis
    using Inl e by (auto simp: confidence_interval_def assms Let_def)
next
  case (Inr r)
  then have "0 \<le> n \<and> 0 \<le> num_val sigma"
    using norm_rvs_Inr_iff [of 0 "num_val sigma" n g] by blast
  then show ?thesis
    using Inr by (auto simp: confidence_interval_def assms Let_def split: prod.splits)
qed

theorem no_parameter_validation_witness:
  "\<exists>r. confidence_interval t_isf_table (3 / 2)
         [''n'' \<mapsto> PyInt 1, ''mu'' \<mapsto> PyFloat (3 / 10), ''sigma'' \<mapsto> PyInt 0, ''alpha'' \<mapsto> PyFloat 2]
         example_draws = Inr r"
  using no_parameter_validation [of "[''n'' \<mapsto> PyInt 1, ''mu'' \<mapsto> PyFloat (3 / 10), ''sigma'' \<mapsto> PyInt 0, ''alpha'' \<mapsto> PyFloat 2]"
      1 "PyFloat (3 / 10)" "PyFloat 2" "PyInt 0" t_isf_table "3 / 2" example_draws]
  by simp

text \<open>
  The claim as stated fails: with \<open>alpha = 2\<close>, outside the unit interval, and a
  sample size of two the call returns a result.
\<close>

theorem no_parameter_validation_counterexample:
  "confidence_interval t_isf_table (95 / 100) (prmtrs_n2(''alpha'' \<mapsto> PyFloat 2)) example_draws =
     Inr ((Fin (23 / 10), Fin (- (52031 / 5000)), Fin (75031 / 5000), Fin (23 / 10)),
          \<lambda>i. example_draws (i + 2))"
  by (simp add: trial_eval)

text \<open>
  Claim C6, as amended.  With the other parameters valid, a sample size of two
  completes without error (the effect is the mean of the two sample values), and a
  sample size of one completes without error as well: the effect is the single
  sample value, and the bounds and the t statistic are NaN, since the corrected
  standard deviation of one value is \<open>0 / 0\<close>.
\<close>

theorem sample_size_boundary:
  assumes "prmtrs ''mu'' = Some mu"
    and "prmtrs ''alpha'' = Some alpha"
    and "prmtrs ''sigma'' = Some sigma"
    and "0 < num_val sigma"
  shows "(\<exists>low upp g'. confidence_interval isf CI (prmtrs(''n'' \<mapsto> PyInt 2)) g =
            Inr ((Fin ((g 0 * num_val sigma + num_val mu + (g 1 * num_val sigma + num_val mu)) / 2),
                  low, upp,
                  fdiv (Fin ((g 0 * num_val sigma + num_val mu + (g 1 * num_val sigma + num_val mu)) / 2))
                       (Fin (std_err (sample_values (num_val mu) (num_val sigma) 2 g)))), g')) \<and>
         confidence_interval isf CI (prmtrs(''n'' \<mapsto> PyInt 1)) g =
            Inr ((Fin (g 0 * num_val sigma + num_val mu), NaN, NaN, NaN), \<lambda>i. g (i + 1))"
proof
  have two: "confidence_interval isf CI (prmtrs(''n'' \<mapsto> PyInt 2)) g = Inr
     ((Fin (sample_mean (sample_values (num_val mu) (num_val sigma) (nat 2) g)),
       fsub (Fin (sample_mean (sample_values (num_val mu) (num_val sigma) (nat 2) g)))
        (fmul (isf (real_of_int 2 - 1) ((1 - CI) / 2))
          (Fin (std_err (sample_values (num_val mu) (num_val sigma) (nat 2) g)))),
       fadd (Fin (sample_mean (sample_values (num_val mu) (num_val sigma) (nat 2) g)))
        (fmul (isf (real_of_int 2 - 1) ((1 - CI) / 2))
          (Fin (std_err (sample_values (num_val mu) (num_val sigma) (nat 2) g)))),
       fdiv (Fin (sample_mean (sample_values (num_val mu) (num_val sigma) (nat 2) g)))
        (Fin (std_err (sample_values (num_val mu) (num_val sigma) (nat 2) g)))),
      \<lambda>i. g (i + nat 2))"
    by (rule confidence_interval_valid [where mu = mu and alpha = alpha and sigma = sigma])
       (simp_all add: assms)
  have mean2: "sample_mean (sample_values (num_val mu) (num_val sigma) 2 g) =
      (g 0 * num_val sigma + num_val mu + (g 1 * num_val sigma + num_val mu)) / 2"
    by (simp add: sample_mean_def sample_values_def upt_rec)
  show "\<exists>low upp g'. confidence_interval isf CI (prmtrs(''n'' \<mapsto> PyInt 2)) g =
            Inr ((Fin ((g 0 * num_val sigma + num_val mu + (g 1 * num_val sigma + num_val mu)) / 2),
                  low, upp,
                  fdiv (Fin ((g 0 * num_val sigma + num_val mu + (g 1 * num_val sigma + num_val mu)) / 2))
                       (Fin (std_err (sample_values (num_val mu) (num_val sigma) 2 g)))), g')"
    unfolding two by (simp add: mean2)
next
  show "confidence_interval isf CI (prmtrs(''n'' \<mapsto> PyInt 1)) g =
            Inr ((Fin (g 0 * num_val sigma + num_val mu), NaN, NaN, NaN), \<lambda>i. g (i + 1))"
    using assms(4)
    by (simp add: confidence_interval_def assms(1-3) standard_normal_def np_mean_def np_std_def
        np_var_def np_sum_def fsub_def Let_def)
qed

theorem sample_size_boundary_witness:
  "(\<exists>low upp g'. confidence_interval t_isf_table (95 / 100) (prmtrs_cell32(''n'' \<mapsto> PyInt 2)) example_draws =
      Inr ((Fin ((example_draws 0 * num_val (PyFloat 1) + num_val (PyFloat (3 / 10)) +
                 (example_draws 1 * num_val (PyFloat 1) + num_val (PyFloat (3 / 10)))) / 2),
            low, upp,
            fdiv (Fin ((example_draws 0 * num_val (PyFloat 1) + num_val (PyFloat (3 / 10)) +
                 (example_draws 1 * num_val (PyFloat 1) + num_val (PyFloat (3 / 10)))) / 2))
                 (Fin (std_err (sample_values (num_val (PyFloat (3 / 10))) (num_val (PyFloat 1)) 2 example_draws)))), g')) \<and>
   confidence_interval t_isf_table (95 / 100) (prmtrs_cell32(''n'' \<mapsto> PyInt 1)) example_draws =
      Inr ((Fin (example_draws 0 * num_val (PyFloat 1) + num_val (PyFloat (3 / 10))), NaN, NaN, NaN),
           \<lambda>i. example_draws (i + 1))"
  by (rule sample_size_boundary [where alpha = "PyFloat (5 / 100)"])
     (simp_all add: prmtrs_cell32_def)

text \<open>
  The claim as stated fails: with the parameters of cell 32 and \<open>n = 1\<close> the call
  returns a result and raises nothing.
\<close>

theorem sample_size_boundary_counterexample:
  "confidence_interval t_isf_table (95 / 100) (prmtrs_cell32(''n'' \<mapsto> PyInt 1)) example_draws =
     Inr ((Fin (33 / 10), NaN, NaN, NaN), \<lambda>i. example_draws (i + 1))"
  by (simp add: trial_eval)

subsection \<open>The significance level inside a trial\<close>

text \<open>
  Claim C10.  The result of \<open>confidence_interval\<close> does not depend on
  \<^verbatim>\<open>prmtrs['alpha']\<close>: two calls whose dictionaries differ in that entry only, on the
  same generator, return the same tuple (and leave the same generator, or raise
  the same error).  The entry is read and used for \<open>t_alph\<close> only, which is not
  returned.
\<close>

theorem alpha_not_used:
  "confidence_interval isf CI (prmtrs(''alpha'' \<mapsto> a1)) g =
   confidence_interval isf CI (prmtrs(''alpha'' \<mapsto> a2)) g"
  by (simp add: confidence_interval_def Let_def split: option.split)

subsection \<open>The sampling step\<close>

text \<open>
  Claim C8.  Drawing the sample from a normal distribution with mean \<open>mu\<close> and
  standard deviation \<open>sigma\<close>, as the specification words it, and drawing it from
  mean \<open>0\<close> and adding \<open>mu\<close> to each value, as the code does, give the same sample
  (and the same generator afterwards, or the same error) from the same deviates of
  the generator; hence \<open>confidence_interval\<close> returns what it would return with the
  specified sampling step.
\<close>

theorem sampling_refines_spec:
  "sampling_code mu sigma n g = sampling_spec mu sigma n g \<and>
   confidence_interval isf CI prmtrs g = confidence_interval_direct isf CI prmtrs g"
proof
  show samp: "sampling_code mu sigma n g = sampling_spec mu sigma n g" for mu sigma n g
    by (cases n) (simp_all add: sampling_code_def sampling_spec_def standard_normal_def comp_def)
  show "confidence_interval isf CI prmtrs g = confidence_interval_direct isf CI prmtrs g"
    unfolding confidence_interval_def confidence_interval_direct_def samp [symmetric]
    by (simp add: Let_def sampling_code_def split: option.split sum.split prod.split)
qed

subsection \<open>The loop over the experiments and the detections\<close>

lemma stored_Nil [simp]: "stored i [] xs = xs"
  by (simp add: stored_def)

lemma stored_Cons:
  "i < length xs \<Longrightarrow> stored (Suc i) vs (xs[i := v]) = stored i (v # vs) xs"
  by (simp add: stored_def take_Suc_conv_app_nth)

lemma stored_all [simp]: "length vs = length xs \<Longrightarrow> stored 0 vs xs = vs"
  by (simp add: stored_def)

lemma experiments_loop_trials:
  assumes "i + k \<le> length (effect a)" "i + k \<le> length (lCI a)"
    "i + k \<le> length (uCI a)" "i + k \<le> length (t a)"
  shows "experiments_loop isf prmtrs k i a g =
    (case trials isf prmtrs k g of
       Inl e \<Rightarrow> Inl e
     | Inr (rs, g') \<Rightarrow>
         Inr (a\<lparr>effect := stored i (map fst rs) (effect a),
                lCI := stored i (map (fst \<circ> snd) rs) (lCI a),
                uCI := stored i (map (fst \<circ> snd \<circ> snd) rs) (uCI a),
                t := stored i (map (snd \<circ> snd \<circ> snd) rs) (t a)\<rparr>, g'))"
  using assms
proof (induction k arbitrary: i a g)
  case 0
  then show ?case by simp
next
  case (Suc k)
  show ?case
  proof (cases "''CI'' \<in> dom prmtrs")
    case True
    then show ?thesis by simp
  next
    case False
    show ?thesis
    proof (cases "confidence_interval isf (95 / 100) prmtrs g")
      case (Inl e)
      with False show ?thesis by simp
    next
      case (Inr r)
      obtain e l u tv g1 where r: "r = ((e, l, u, tv), g1)"
        by (cases r) auto
      let ?a = "a\<lparr>effect := (effect a)[i := e], lCI := (lCI a)[i := l],
                     uCI := (uCI a)[i := u], t := (t a)[i := tv]\<rparr>"
      have IH: "experiments_loop isf prmtrs k (Suc i) ?a g1 =
        (case trials isf prmtrs k g1 of
           Inl e \<Rightarrow> Inl e
         | Inr (rs, g') \<Rightarrow>
             Inr (?a\<lparr>effect := stored (Suc i) (map fst rs) (effect ?a),
                    lCI := stored (Suc i) (map (fst \<circ> snd) rs) (lCI ?a),
                    uCI := stored (Suc i) (map (fst \<circ> snd \<circ> snd) rs) (uCI ?a),
                    t := stored (Suc i) (map (snd \<circ> snd \<circ> snd) rs) (t ?a)\<rparr>, g'))"
        using Suc.prems by (intro Suc.IH) simp_all
      have lt: "i < length (effect a)" "i < length (lCI a)" "i < length (uCI a)" "i < length (t a)"
        using Suc.prems by simp_all
      show ?thesis
        using False Inr r IH lt
        by (simp add: stored_Cons comp_def split: sum.split prod.split)
    qed
  qed
qed

lemma trials_length: "trials isf prmtrs k g = Inr (rs, g') \<Longrightarrow> length rs = k"
  by (induction k arbitrary: g rs) (auto split: if_splits sum.splits prod.splits)

lemma simulate_trials:
  "simulate isf prmtrs Nexp g =
    (case trials isf prmtrs Nexp g of
       Inl e \<Rightarrow> Inl e
     | Inr (rs, g') \<Rightarrow>
         Inr (\<lparr>effect = map fst rs, lCI = map (fst \<circ> snd) rs,
               uCI = map (fst \<circ> snd \<circ> snd) rs, t = map (snd \<circ> snd \<circ> snd) rs\<rparr>, g'))"
  unfolding simulate_def
  by (subst experiments_loop_trials)
     (auto simp: np_zeros_def trials_length split: sum.split)

lemma trials_add:
  "trials isf prmtrs (k + m) g =
    (case trials isf prmtrs k g of
       Inl e \<Rightarrow> Inl e
     | Inr (rs, g') \<Rightarrow>
        (case trials isf prmtrs m g' of
           Inl e \<Rightarrow> Inl e
         | Inr (rs', g'') \<Rightarrow> Inr (rs @ rs', g'')))"
  by (induction k arbitrary: g) (auto split: sum.split prod.split)


lemma detect_append: "detect (ts @ us) thr = detect ts thr @ detect us thr"
  by (simp add: detect_def)

lemma count_true_append: "count_true (d @ d') = count_true d + count_true d'"
  by (simp add: count_true_def)

lemma count_true_le: "count_true d \<le> length d"
  by (simp add: count_true_def)

lemma bool_index_append:
  "length a = length d \<Longrightarrow> bool_index (a @ a') (d @ d') = bool_index a d @ bool_index a' d'"
  by (simp add: bool_index_def)

lemma bool_index_nth:
  "length a = length d \<Longrightarrow>
   bool_index a d = map (\<lambda>i. a ! i) (filter (\<lambda>i. d ! i) [0..<length d])"
proof (induction a d rule: rev_induct2)
  case 1
  show ?case by (simp add: bool_index_def)
next
  case (2 x a)
  then show ?case by simp
next
  case (3 y d)
  then show ?case by simp
next
  case (4 x a y d)
  then have len: "length a = length d" by simp
  have f: "filter (\<lambda>i. (d @ [y]) ! i) [0..<length d] = filter (\<lambda>i. d ! i) [0..<length d]"
    by (rule filter_cong) (simp_all add: nth_append)
  have m: "map (\<lambda>i. (a @ [x]) ! i) (filter (\<lambda>i. d ! i) [0..<length d]) =
           map (\<lambda>i. a ! i) (filter (\<lambda>i. d ! i) [0..<length d])"
    using len by (intro map_cong) (auto simp: nth_append)
  show ?case
    using len "4.IH" [OF len]
    by (simp add: bool_index_append f m) (simp add: bool_index_def nth_append)
qed

lemma count_true_length_bool_index:
  "length a = length d \<Longrightarrow> length (bool_index a d) = count_true d"
proof (induction a d rule: list_induct2)
  case Nil
  show ?case by (simp add: bool_index_def count_true_def)
next
  case (Cons x a y d)
  then show ?case by (simp add: bool_index_def count_true_def)
qed

lemma count_true_nth:
  "count_true d = length (filter (\<lambda>i. d ! i) [0..<length d])"
  using count_true_length_bool_index [of d d] bool_index_nth [of d d] by simp

lemma experiment_set_trials:
  "experiment_set isf prmtrs Nexp g =
    (case trials isf prmtrs Nexp g of
       Inl e \<Rightarrow> Inl e
     | Inr (rs, g') \<Rightarrow>
        (case t_alpha isf prmtrs of
           Inl e \<Rightarrow> Inl e
         | Inr thr \<Rightarrow>
            Inr (\<lparr>results = \<lparr>effect = map fst rs, lCI = map (fst \<circ> snd) rs,
                       uCI = map (fst \<circ> snd \<circ> snd) rs, t = map (snd \<circ> snd \<circ> snd) rs\<rparr>,
                   detections = detect (map (snd \<circ> snd \<circ> snd) rs) thr,
                   number_of_detection = count_true (detect (map (snd \<circ> snd \<circ> snd) rs) thr),
                   mean_effect = np_mean (map fst rs),
                   mean_detected_effect =
                     np_mean (bool_index (map fst rs) (detect (map (snd \<circ> snd \<circ> snd) rs) thr))\<rparr>, g')))"
  by (simp add: experiment_set_def simulate_trials Let_def split: sum.split prod.split)

text \<open>Two runs of two experiments evaluated: one with a detection, one without.\<close>

lemmas set_eval = experiment_set_def simulate_def np_zeros_def t_alpha_def nb_alpha_def detect_def count_true_def bool_index_def example_draws_detect_def

lemma example_run_detect:
  "experiment_set t_isf_table prmtrs_n2 2 example_draws_detect =
     Inr (\<lparr>results =
            \<lparr>effect = [Fin (23 / 10), Fin 14],
             lCI = [Fin (- (52031 / 5000)), Fin (6469 / 5000)],
             uCI = [Fin (75031 / 5000), Fin (133531 / 5000)],
             t = [Fin (23 / 10), Fin 14]\<rparr>,
           detections = [False, True], number_of_detection = 1,
           mean_effect = Fin (163 / 20), mean_detected_effect = Fin 14\<rparr>,
          \<lambda>i. example_draws_detect (i + 4))"
  unfolding numeral_2_eq_2 by (simp add: trial_eval set_eval)

lemma example_run_none:
  "experiment_set t_isf_table prmtrs_n2 2 example_draws =
     Inr (\<lparr>results =
            \<lparr>effect = [Fin (23 / 10), Fin (23 / 10)],
             lCI = [Fin (- (52031 / 5000)), Fin (- (52031 / 5000))],
             uCI = [Fin (75031 / 5000), Fin (75031 / 5000)],
             t = [Fin (23 / 10), Fin (23 / 10)]\<rparr>,
           detections = [False, False], number_of_detection = 0,
           mean_effect = Fin (23 / 10), mean_detected_effect = NaN\<rparr>,
          \<lambda>i. example_draws (i + 4))"
  unfolding numeral_2_eq_2 by (simp add: trial_eval set_eval)

text \<open>
  The generator is threaded through the runs: a second run that goes on with the
  generator the first one left behind draws the next deviates.  Here the first run
  of one experiment has \<open>t = 2.3\<close> and the second has \<open>t = 14\<close>.
\<close>

lemma rerun_without_seeding:
  "(case experiment_set t_isf_table prmtrs_n2 1 example_draws_detect of
      Inl e \<Rightarrow> False
    | Inr (rep1, g1) \<Rightarrow>
       (case experiment_set t_isf_table prmtrs_n2 1 g1 of
          Inl e \<Rightarrow> False
        | Inr (rep2, g2) \<Rightarrow>
            t (results rep1) = [Fin (23 / 10)] \<and> t (results rep2) = [Fin 14]))"
  by (simp add: trial_eval set_eval)

subsection \<open>The number of detections\<close>

text \<open>
  Claim C9.  The number of detections is a natural number.  When a set of
  \<open>Nexp + extra\<close> experiments returns, the set of the first \<open>Nexp\<close> experiments, from
  the same generator, returns as well, its number of detections is at most \<open>Nexp\<close>,
  its detections are the first \<open>Nexp\<close> detections of the longer run (none is
  retracted), and its number of detections is at most that of the longer run,
  which is at most \<open>Nexp + extra\<close>.
\<close>

theorem detection_count_monotone:
  assumes "experiment_set isf prmtrs (Nexp + extra) g = Inr (rep', g'')"
  shows "\<exists>rep g'. experiment_set isf prmtrs Nexp g = Inr (rep, g') \<and>
           number_of_detection rep \<le> Nexp \<and>
           take Nexp (detections rep') = detections rep \<and>
           number_of_detection rep \<le> number_of_detection rep' \<and>
           number_of_detection rep' \<le> Nexp + extra"
proof -
  from assms obtain rs2 thr where
    tr2: "trials isf prmtrs (Nexp + extra) g = Inr (rs2, g'')" and
    thr: "t_alpha isf prmtrs = Inr thr" and
    d2: "detections rep' = detect (map (snd \<circ> snd \<circ> snd) rs2) thr" and
    c2: "number_of_detection rep' = count_true (detect (map (snd \<circ> snd \<circ> snd) rs2) thr)"
    unfolding experiment_set_trials by (auto split: sum.splits prod.splits)
  from tr2 obtain rs g' rs' where
    tr: "trials isf prmtrs Nexp g = Inr (rs, g')" and rs2: "rs2 = rs @ rs'"
    unfolding trials_add by (auto split: sum.splits prod.splits)
  have len: "length rs = Nexp" using tr by (rule trials_length)
  have len2: "length rs2 = Nexp + extra" using tr2 by (rule trials_length)
  obtain rep where
    run: "experiment_set isf prmtrs Nexp g = Inr (rep, g')" and
    d: "detections rep = detect (map (snd \<circ> snd \<circ> snd) rs) thr" and
    c: "number_of_detection rep = count_true (detect (map (snd \<circ> snd \<circ> snd) rs) thr)"
    unfolding experiment_set_trials by (simp add: tr thr)
  have "number_of_detection rep \<le> Nexp"
    using count_true_le [of "detect (map (snd \<circ> snd \<circ> snd) rs) thr"] len
    by (simp add: c detect_def)
  moreover have "take Nexp (detections rep') = detections rep"
    using len by (simp add: d d2 rs2 detect_def)
  moreover have "number_of_detection rep \<le> number_of_detection rep'"
    by (simp add: c c2 rs2 detect_append count_true_append)
  moreover have "number_of_detection rep' \<le> Nexp + extra"
    using count_true_le [of "detect (map (snd \<circ> snd \<circ> snd) rs2) thr"] len2
    by (simp add: c2 detect_def)
  ultimately show ?thesis using run by blast
qed

theorem detection_count_monotone_witness:
  "\<exists>rep g'. experiment_set t_isf_table prmtrs_n2 1 example_draws_detect = Inr (rep, g') \<and>
     number_of_detection rep \<le> 1 \<and>
     take 1 [False, True] = detections rep \<and>
     number_of_detection rep \<le> 1 \<and>
     (1::nat) \<le> 1 + 1"
proof -
  have run: "experiment_set t_isf_table prmtrs_n2 (1 + 1) example_draws_detect =
     Inr (\<lparr>results =
            \<lparr>effect = [Fin (23 / 10), Fin 14],
             lCI = [Fin (- (52031 / 5000)), Fin (6469 / 5000)],
             uCI = [Fin (75031 / 5000), Fin (133531 / 5000)],
             t = [Fin (23 / 10), Fin 14]\<rparr>,
           detections = [False, True], number_of_detection = 1,
           mean_effect = Fin (163 / 20), mean_detected_effect = Fin 14\<rparr>,
          \<lambda>i. example_draws_detect (i + 4))"
    unfolding one_add_one by (rule example_run_detect)
  show ?thesis
    using detection_count_monotone [OF run] by simp
qed

subsection \<open>The mean effect of the detected experiments\<close>

text \<open>
  Claim C3, as amended.  The mean detected effect is NumPy's mean of the effects
  at exactly the indices \<open>i\<close> where \<open>t[i] > t_alpha\<close>, that is their sum divided by the
  number of detections; when there is no detection the value is NaN (the mean of
  an empty selection), a value that is present in the report and not an absent
  field.
\<close>

theorem mean_detected_effect_value:
  assumes "experiment_set isf prmtrs Nexp g = Inr (rep, g')"
  shows "\<exists>thr. t_alpha isf prmtrs = Inr thr \<and>
           number_of_detection rep =
             length (filter (\<lambda>i. fgt (t (results rep) ! i) thr) [0..<Nexp]) \<and>
           mean_detected_effect rep =
             np_mean (map (\<lambda>i. effect (results rep) ! i)
                        (filter (\<lambda>i. fgt (t (results rep) ! i) thr) [0..<Nexp])) \<and>
           mean_detected_effect rep =
             (if number_of_detection rep = 0 then NaN
              else fdiv (np_sum (map (\<lambda>i. effect (results rep) ! i)
                                  (filter (\<lambda>i. fgt (t (results rep) ! i) thr) [0..<Nexp])))
                        (Fin (real (number_of_detection rep))))"
proof -
  from assms obtain rs thr where
    tr: "trials isf prmtrs Nexp g = Inr (rs, g')" and
    thr: "t_alpha isf prmtrs = Inr thr" and
    rep: "rep = \<lparr>results = \<lparr>effect = map fst rs, lCI = map (fst \<circ> snd) rs,
                       uCI = map (fst \<circ> snd \<circ> snd) rs, t = map (snd \<circ> snd \<circ> snd) rs\<rparr>,
                   detections = detect (map (snd \<circ> snd \<circ> snd) rs) thr,
                   number_of_detection = count_true (detect (map (snd \<circ> snd \<circ> snd) rs) thr),
                   mean_effect = np_mean (map fst rs),
                   mean_detected_effect =
                     np_mean (bool_index (map fst rs) (detect (map (snd \<circ> snd \<circ> snd) rs) thr))\<rparr>"
    unfolding experiment_set_trials by (auto split: sum.splits prod.splits)
  have len: "length rs = Nexp" using tr by (rule trials_length)
  define d where "d = detect (map (snd \<circ> snd \<circ> snd) rs) thr"
  define idx where "idx = filter (\<lambda>i. fgt (t (results rep) ! i) thr) [0..<Nexp]"
  have ld: "length d = Nexp" by (simp add: d_def detect_def len)
  have "filter (\<lambda>i. d ! i) [0..<length d] = idx"
    unfolding idx_def ld
    by (rule filter_cong) (simp_all add: d_def detect_def rep len)
  then have cnt: "count_true d = length idx"
    by (simp add: count_true_nth)
  have sel: "bool_index (map fst rs) d = map (\<lambda>i. effect (results rep) ! i) idx"
    using \<open>filter (\<lambda>i. d ! i) [0..<length d] = idx\<close>
    by (simp add: bool_index_nth ld len rep)
  have n: "number_of_detection rep = length idx"
    by (simp add: rep cnt [unfolded d_def])
  have m: "mean_detected_effect rep = np_mean (map (\<lambda>i. effect (results rep) ! i) idx)"
    using sel by (simp add: rep d_def)
  have "mean_detected_effect rep =
             (if number_of_detection rep = 0 then NaN
              else fdiv (np_sum (map (\<lambda>i. effect (results rep) ! i) idx))
                        (Fin (real (number_of_detection rep))))"
    unfolding m n by (simp add: np_mean_def np_sum_def)
  with thr n m show ?thesis unfolding idx_def by blast
qed

theorem mean_detected_effect_value_witness:
  "\<exists>thr. t_alpha t_isf_table prmtrs_n2 = Inr thr \<and>
      (0::nat) = length (filter (\<lambda>i. fgt ([Fin (23 / 10), Fin (23 / 10)] ! i) thr) [0..<2]) \<and>
      NaN = np_mean (map (\<lambda>i. [Fin (23 / 10), Fin (23 / 10)] ! i)
                        (filter (\<lambda>i. fgt ([Fin (23 / 10), Fin (23 / 10)] ! i) thr) [0..<2]))"
  using mean_detected_effect_value [OF example_run_none] by simp

text \<open>
  The claim as stated fails: two experiments of sample size two without a
  detection report a mean detected effect of NaN.
\<close>

theorem mean_detected_effect_value_counterexample:
  "(case experiment_set t_isf_table prmtrs_n2 2 example_draws of
      Inl e \<Rightarrow> False
    | Inr (rep, g') \<Rightarrow> number_of_detection rep = 0 \<and> mean_detected_effect rep = NaN)"
  by (simp add: example_run_none)

subsection \<open>The detection rule\<close>

text \<open>
  The detections of a run compare each t statistic with one threshold, strictly
  and on the right tail only; the threshold is taken at the notebook variable
  \<^verbatim>\<open>alpha\<close> of cell 18 and does not move with \<^verbatim>\<open>prmtrs['alpha']\<close>.
\<close>

lemma t_alpha_ignores_alpha:
  "t_alpha isf (prmtrs(''alpha'' \<mapsto> a)) = t_alpha isf prmtrs"
  by (simp add: t_alpha_def)

lemma detections_one_sided:
  assumes "experiment_set isf prmtrs Nexp g = Inr (rep, g')"
    and "prmtrs ''n'' = Some n"
  shows "detections rep = map (\<lambda>x. fgt x (isf (num_val n - 1) nb_alpha)) (t (results rep))"
  using assms
  by (auto simp: experiment_set_def t_alpha_def detect_def Let_def split: sum.splits prod.splits)

text \<open>
  Claim C4.  The specified rule detects a trial when its t statistic exceeds the
  inverse survival function at the significance level of the parameters.  The code
  evaluated at parameters with \<open>alpha = 0.01\<close> (sample size two, so one degree of
  freedom): the second experiment has \<open>t = 14\<close> and is reported as detected, because
  the threshold is \<open>6.3138\<close>, the critical value at \<open>0.05\<close>; the specified rule, with
  the critical value \<open>31.8205\<close> at \<open>0.01\<close>, does not detect it.
\<close>

theorem detection_uses_notebook_alpha:
  "(case experiment_set t_isf_table (prmtrs_n2(''alpha'' \<mapsto> PyFloat (1 / 100))) 2 example_draws_detect of
      Inl e \<Rightarrow> False
    | Inr (rep, g') \<Rightarrow> t (results rep) = [Fin (23 / 10), Fin 14] \<and> detections rep = [False, True]) \<and>
   t_alpha t_isf_table (prmtrs_n2(''alpha'' \<mapsto> PyFloat (1 / 100))) = Inr (Fin (63138 / 10000)) \<and>
   detect_spec t_isf_table (prmtrs_n2(''alpha'' \<mapsto> PyFloat (1 / 100))) (Fin 14) = Inr False"
  unfolding numeral_2_eq_2 by (simp add: trial_eval set_eval detect_spec_def)

end
